theory Spec2Isabelle
  imports Complex_Main "HOL-Library.AList"
begin

section \<open>JavaScript numbers\<close>

text \<open>
  The calculator of \<^verbatim>\<open>app/(tabs)/index.tsx\<close> computes with JavaScript numbers, the
  binary64 values of IEEE 754. A number is modelled as \<open>NaN\<close>, one of the two infinities,
  or a finite value carried as the rational it denotes. Every sum, product and quotient is
  the exact result rounded to the nearest binary64 value, a tie going to the even
  significand; a result of magnitude \<open>2 ^ 1024\<close> or more after rounding is an infinity, and
  one below the smallest subnormal goes to zero. The sign of zero is not modelled: the
  program never divides by a zero and otherwise only compares and adds its zeros.
\<close>

datatype jsnum = NaN | NInf | Fin rat | PInf

text \<open>The number of binary digits of a positive integer.\<close>

function bitLength :: "int \<Rightarrow> int" where
  "bitLength n = (if n \<le> 0 then 0 else 1 + bitLength (n div 2))"
  by pat_completeness auto
termination
  by (relation "measure nat") auto

declare bitLength.simps [simp del]

definition pow2 :: "int \<Rightarrow> rat" where
  "pow2 e = (if 0 \<le> e then 2 ^ nat e else 1 / 2 ^ nat (- e))"

text \<open>The exponent \<open>e\<close> of a positive rational \<open>a\<close>: \<open>2 ^ e \<le> a < 2 ^ (e + 1)\<close>.\<close>

definition binaryExponent :: "rat \<Rightarrow> int" where
  "binaryExponent a =
     (let (p, q) = quotient_of a; d = bitLength p - bitLength q
      in if pow2 d \<le> a then d else d - 1)"

text \<open>The nearest integer, a tie going to the even one.\<close>

definition roundHalfEven :: "rat \<Rightarrow> int" where
  "roundHalfEven x =
     (let f = \<lfloor>x\<rfloor>; r = x - rat_of_int f
      in if r < 1 / 2 then f else if 1 / 2 < r then f + 1
         else if even f then f else f + 1)"

text \<open>
  The binary64 value of a rational. The significand has 53 bits, so a value of exponent
  \<open>e\<close> is a multiple of \<open>2 ^ (e - 52)\<close>; the least exponent of a multiple is \<open>- 1074\<close>, that
  of the subnormal numbers.
\<close>

definition toDouble :: "rat \<Rightarrow> jsnum" where
  "toDouble q =
     (if q = 0 then Fin 0
      else
        let a = \<bar>q\<bar>; e = binaryExponent a in
        if 1024 \<le> e then (if q < 0 then NInf else PInf)
        else
          let k = max (e - 52) (- 1074);
              n = roundHalfEven (a / pow2 k)
          in if e = 1023 \<and> n = 2 ^ 53 then (if q < 0 then NInf else PInf)
             else Fin ((if q < 0 then - 1 else 1) * rat_of_int n * pow2 k))"

fun jneg :: "jsnum \<Rightarrow> jsnum" where
  "jneg NaN = NaN"
| "jneg NInf = PInf"
| "jneg (Fin a) = Fin (- a)"
| "jneg PInf = NInf"

fun jadd :: "jsnum \<Rightarrow> jsnum \<Rightarrow> jsnum" where
  "jadd (Fin a) (Fin b) = toDouble (a + b)"
| "jadd NaN y = NaN"
| "jadd x NaN = NaN"
| "jadd PInf NInf = NaN"
| "jadd NInf PInf = NaN"
| "jadd PInf y = PInf"
| "jadd x PInf = PInf"
| "jadd NInf y = NInf"
| "jadd x NInf = NInf"

definition jsub :: "jsnum \<Rightarrow> jsnum \<Rightarrow> jsnum" where
  "jsub x y = jadd x (jneg y)"

fun isZero :: "jsnum \<Rightarrow> bool" where
  "isZero (Fin a) = (a = 0)"
| "isZero x = False"

fun isNegative :: "jsnum \<Rightarrow> bool" where
  "isNegative (Fin a) = (a < 0)"
| "isNegative NInf = True"
| "isNegative x = False"

fun jmul :: "jsnum \<Rightarrow> jsnum \<Rightarrow> jsnum" where
  "jmul (Fin a) (Fin b) = toDouble (a * b)"
| "jmul NaN y = NaN"
| "jmul x NaN = NaN"
| "jmul x y = (if isZero x \<or> isZero y then NaN
               else if isNegative x = isNegative y then PInf else NInf)"

text \<open>Every divisor of the program is positive where it is used; a zero divisor is taken
  as the positive zero.\<close>

fun jdiv :: "jsnum \<Rightarrow> jsnum \<Rightarrow> jsnum" where
  "jdiv (Fin a) (Fin b) =
     (if b = 0 then (if a = 0 then NaN else if 0 < a then PInf else NInf)
      else toDouble (a / b))"
| "jdiv NaN y = NaN"
| "jdiv x NaN = NaN"
| "jdiv (Fin a) y = Fin 0"
| "jdiv x (Fin b) = (if isNegative x = (b < 0) then PInf else NInf)"
| "jdiv x y = NaN"

text \<open>The relational operators: every comparison with \<open>NaN\<close> is false.\<close>

fun jlt :: "jsnum \<Rightarrow> jsnum \<Rightarrow> bool" where
  "jlt (Fin a) (Fin b) = (a < b)"
| "jlt NaN y = False"
| "jlt x NaN = False"
| "jlt x NInf = False"
| "jlt PInf y = False"
| "jlt NInf y = True"
| "jlt x PInf = True"

definition jgt :: "jsnum \<Rightarrow> jsnum \<Rightarrow> bool" where
  "jgt x y = jlt y x"

definition jle :: "jsnum \<Rightarrow> jsnum \<Rightarrow> bool" where
  "jle x y = (x \<noteq> NaN \<and> y \<noteq> NaN \<and> \<not> jlt y x)"

definition jge :: "jsnum \<Rightarrow> jsnum \<Rightarrow> bool" where
  "jge x y = jle y x"

definition Math_min :: "jsnum \<Rightarrow> jsnum \<Rightarrow> jsnum" where
  "Math_min x y = (if x = NaN \<or> y = NaN then NaN else if jlt y x then y else x)"

definition Math_max :: "jsnum \<Rightarrow> jsnum \<Rightarrow> jsnum" where
  "Math_max x y = (if x = NaN \<or> y = NaN then NaN else if jlt x y then y else x)"

text \<open>\<open>Math.floor\<close>, \<open>Math.ceil\<close> and \<open>Math.round\<close> are exact: the integer they return is a
  binary64 value whenever their argument is one. \<open>Math.round\<close> rounds to the nearest
  integer, a tie towards positive infinity.\<close>

fun Math_floor :: "jsnum \<Rightarrow> jsnum" where
  "Math_floor (Fin a) = Fin (of_int \<lfloor>a\<rfloor>)"
| "Math_floor x = x"

fun Math_ceil :: "jsnum \<Rightarrow> jsnum" where
  "Math_ceil (Fin a) = Fin (of_int \<lceil>a\<rceil>)"
| "Math_ceil x = x"

fun Math_round :: "jsnum \<Rightarrow> jsnum" where
  "Math_round (Fin a) = Fin (of_int \<lfloor>a + 1 / 2\<rfloor>)"
| "Math_round x = x"

definition Number_EPSILON :: jsnum where
  "Number_EPSILON = Fin (1 / 2 ^ 52)"

text \<open>
  \<^verbatim>\<open>const roundToTwoDecimals = (value) => {
    return Math.round((value + Number.EPSILON) * 100) / 100;
  };\<close>
\<close>

definition roundToTwoDecimals :: "jsnum \<Rightarrow> jsnum" where
  "roundToTwoDecimals v = jdiv (Math_round (jmul (jadd v Number_EPSILON) (Fin 100))) (Fin 100)"

section \<open>Strings as numbers\<close>

text \<open>
  A string is the list of its UTF-16 code units; \<open>js\<close> gives the string of an ASCII text.
  The form holds the text of every field. Validation tests a text with \<open>isNaN\<close>, which
  converts its argument with \<open>Number\<close> (the whole trimmed text must be a numeric literal, the
  empty text is 0), and reads it with \<open>parseFloat\<close> (the longest prefix, after leading white
  space, that is a decimal literal; \<open>NaN\<close> when there is none). The value of a literal is
  its mathematical value rounded to binary64.
\<close>

type_synonym jsstring = "int list"

definition js :: "string \<Rightarrow> jsstring" where
  "js s = map of_char s"

text \<open>White space and line terminators: TAB, LF, VT, FF, CR, the space, the no-break
  space, the other space separators of Unicode, the line and paragraph separators and the
  byte order mark.\<close>

definition isWhiteSpace :: "int \<Rightarrow> bool" where
  "isWhiteSpace c =
     (c \<in> set [0x09, 0x0A, 0x0B, 0x0C, 0x0D, 0x20, 0xA0, 0x1680, 0x2028, 0x2029, 0x202F,
               0x205F, 0x3000, 0xFEFF]
      \<or> (0x2000 \<le> c \<and> c \<le> 0x200A))"

definition isDigit :: "int \<Rightarrow> bool" where
  "isDigit c = (0x30 \<le> c \<and> c \<le> 0x39)"

text \<open>The value of a digit in a base up to sixteen, when it is one.\<close>

definition digitValue :: "int \<Rightarrow> int \<Rightarrow> int option" where
  "digitValue base c =
     (let v = (if 0x30 \<le> c \<and> c \<le> 0x39 then c - 0x30
               else if 0x61 \<le> c \<and> c \<le> 0x66 then c - 0x61 + 10
               else if 0x41 \<le> c \<and> c \<le> 0x46 then c - 0x41 + 10
               else base)
      in if v < base then Some v else None)"

text \<open>The value of a digit string in a base, as an integer.\<close>

definition digitsValue :: "int \<Rightarrow> jsstring \<Rightarrow> int" where
  "digitsValue base ds =
     foldl (\<lambda>a c. base * a + (case digitValue base c of None \<Rightarrow> 0 | Some v \<Rightarrow> v)) 0 ds"

definition signPart :: "jsstring \<Rightarrow> bool \<times> jsstring" where
  "signPart s =
     (case s of
        [] \<Rightarrow> (False, [])
      | c # t \<Rightarrow> if c = 0x2D then (True, t) else if c = 0x2B then (False, t)
                 else (False, s))"

text \<open>An exponent part: \<open>e\<close> or \<open>E\<close>, a sign or none, and at least one digit.\<close>

definition exponentPart :: "jsstring \<Rightarrow> int \<times> jsstring" where
  "exponentPart s =
     (case s of
        [] \<Rightarrow> (0, [])
      | c # t \<Rightarrow>
          if c = 0x65 \<or> c = 0x45 then
            (let (neg, u) = signPart t; ds = takeWhile isDigit u
             in if ds = [] then (0, s)
                else ((if neg then - digitsValue 10 ds else digitsValue 10 ds),
                      dropWhile isDigit u))
          else (0, s))"

definition scale10 :: "rat \<Rightarrow> int \<Rightarrow> rat" where
  "scale10 m e = (if 0 \<le> e then m * 10 ^ nat e else m / 10 ^ nat (- e))"

text \<open>The longest decimal literal at the head of a text, with the text left after it.\<close>

definition strDecimalLiteral :: "jsstring \<Rightarrow> (jsnum \<times> jsstring) option" where
  "strDecimalLiteral s =
     (let (neg, r0) = signPart s in
      if take 8 r0 = js ''Infinity'' then Some (if neg then NInf else PInf, drop 8 r0)
      else
        let ip = takeWhile isDigit r0;
            r1 = dropWhile isDigit r0;
            (fp, r2) = (case r1 of
                          [] \<Rightarrow> ([], [])
                        | c # t \<Rightarrow> if c = 0x2E
                                   then (takeWhile isDigit t, dropWhile isDigit t)
                                   else ([], r1))
        in if ip = [] \<and> fp = [] then None
           else
             let (ex, r3) = exponentPart r2;
                 m = rat_of_int (digitsValue 10 (ip @ fp)) / 10 ^ length fp;
                 v = scale10 m ex
             in Some (toDouble (if neg then - v else v), r3))"

definition parseFloat :: "jsstring \<Rightarrow> jsnum" where
  "parseFloat s =
     (case strDecimalLiteral (dropWhile isWhiteSpace s) of
        None \<Rightarrow> NaN
      | Some (v, rest) \<Rightarrow> v)"

definition trim :: "jsstring \<Rightarrow> jsstring" where
  "trim s = rev (dropWhile isWhiteSpace (rev (dropWhile isWhiteSpace s)))"

text \<open>A literal in base sixteen, eight or two, after its prefix.\<close>

definition radixLiteral :: "int \<Rightarrow> jsstring \<Rightarrow> jsnum" where
  "radixLiteral base ds =
     (if ds \<noteq> [] \<and> list_all (\<lambda>c. digitValue base c \<noteq> None) ds
      then toDouble (rat_of_int (digitsValue base ds))
      else NaN)"

text \<open>\<open>Number\<close> applied to a text.\<close>

definition toNumber :: "jsstring \<Rightarrow> jsnum" where
  "toNumber s =
     (let t = trim s in
      if t = [] then Fin 0
      else if take 2 t = js ''0x'' \<or> take 2 t = js ''0X'' then radixLiteral 16 (drop 2 t)
      else if take 2 t = js ''0o'' \<or> take 2 t = js ''0O'' then radixLiteral 8 (drop 2 t)
      else if take 2 t = js ''0b'' \<or> take 2 t = js ''0B'' then radixLiteral 2 (drop 2 t)
      else (case strDecimalLiteral t of
              None \<Rightarrow> NaN
            | Some (v, rest) \<Rightarrow> if rest = [] then v else NaN))"

definition isNaN :: "jsstring \<Rightarrow> bool" where
  "isNaN s = (toNumber s = NaN)"

section \<open>The form and validation\<close>

text \<open>The form state of the component: every field is the text typed by the user, except
  the coupon switch.\<close>

record form =
  originalPrice :: jsstring
  discountRate :: jsstring
  shippingFee :: jsstring
  useCoupon :: bool
  couponValue :: jsstring
  buyX :: jsstring
  getY :: jsstring
  itemPrice :: jsstring
  quantity :: jsstring
  spendAmount :: jsstring
  saveAmount :: jsstring
  taxRate :: jsstring

text \<open>A text in a condition is true when it is not empty.\<close>

definition truthy :: "jsstring \<Rightarrow> bool" where
  "truthy s = (s \<noteq> [])"

text \<open>The error object: field names with their messages, a property assignment being
  \<open>AList.update\<close>.\<close>

type_synonym errors = "(string \<times> string) list"

definition msg_buyXgetY :: string where
  "msg_buyXgetY = ''Both '' @ [CHR 0x22] @ ''Buy X'' @ [CHR 0x22] @ '' and '' @ [CHR 0x22]
     @ ''Get Y'' @ [CHR 0x22] @ '' must be positive numbers''"

definition msg_spendSave :: string where
  "msg_spendSave = ''Both '' @ [CHR 0x22] @ ''Spend'' @ [CHR 0x22] @ '' and '' @ [CHR 0x22]
     @ ''Save'' @ [CHR 0x22] @ '' amounts must be positive numbers''"

text \<open>The conditions of the eight \<open>if\<close> statements of \<open>validateInputs\<close>, in the order of the
  source.\<close>

definition bad_originalPrice :: "form \<Rightarrow> bool" where
  "bad_originalPrice f =
     (\<not> truthy (originalPrice f) \<or> isNaN (originalPrice f)
      \<or> jle (parseFloat (originalPrice f)) (Fin 0))"

definition bad_discountRate :: "form \<Rightarrow> bool" where
  "bad_discountRate f =
     (truthy (discountRate f) \<and>
      (isNaN (discountRate f) \<or> jlt (parseFloat (discountRate f)) (Fin 0)
       \<or> jge (parseFloat (discountRate f)) (Fin 100)))"

definition bad_shippingFee :: "form \<Rightarrow> bool" where
  "bad_shippingFee f =
     (truthy (shippingFee f) \<and>
      (isNaN (shippingFee f) \<or> jlt (parseFloat (shippingFee f)) (Fin 0)))"

definition bad_taxRate :: "form \<Rightarrow> bool" where
  "bad_taxRate f =
     (truthy (taxRate f) \<and> (isNaN (taxRate f) \<or> jlt (parseFloat (taxRate f)) (Fin 0)))"

definition bad_couponValue :: "form \<Rightarrow> bool" where
  "bad_couponValue f =
     (useCoupon f \<and>
      (\<not> truthy (couponValue f) \<or> isNaN (couponValue f)
       \<or> jle (parseFloat (couponValue f)) (Fin 0)))"

definition bad_buyXgetY :: "form \<Rightarrow> bool" where
  "bad_buyXgetY f =
     ((truthy (buyX f) \<or> truthy (getY f)) \<and>
      (\<not> truthy (buyX f) \<or> \<not> truthy (getY f) \<or> isNaN (buyX f) \<or> isNaN (getY f)
       \<or> jle (parseFloat (buyX f)) (Fin 0) \<or> jle (parseFloat (getY f)) (Fin 0)))"

definition bad_itemPrice :: "form \<Rightarrow> bool" where
  "bad_itemPrice f =
     ((truthy (buyX f) \<or> truthy (getY f)) \<and>
      (\<not> truthy (itemPrice f) \<or> isNaN (itemPrice f)
       \<or> jle (parseFloat (itemPrice f)) (Fin 0)))"

definition bad_spendSave :: "form \<Rightarrow> bool" where
  "bad_spendSave f =
     ((truthy (spendAmount f) \<or> truthy (saveAmount f)) \<and>
      (\<not> truthy (spendAmount f) \<or> \<not> truthy (saveAmount f)
       \<or> isNaN (spendAmount f) \<or> isNaN (saveAmount f)
       \<or> jle (parseFloat (spendAmount f)) (Fin 0)
       \<or> jle (parseFloat (saveAmount f)) (Fin 0)))"

text \<open>The object \<open>newErrors\<close> at the end of \<open>validateInputs\<close>.\<close>

definition newErrors :: "form \<Rightarrow> errors" where
  "newErrors f =
     (let e0 = [];
          e1 = (if bad_originalPrice f
                then AList.update ''originalPrice'' ''Please enter a valid positive price'' e0
                else e0);
          e2 = (if bad_discountRate f
                then AList.update ''discountRate'' ''Discount must be between 0-99%'' e1
                else e1);
          e3 = (if bad_shippingFee f
                then AList.update ''shippingFee'' ''Shipping fee cannot be negative'' e2
                else e2);
          e4 = (if bad_taxRate f
                then AList.update ''taxRate'' ''Tax rate cannot be negative'' e3
                else e3);
          e5 = (if bad_couponValue f
                then AList.update ''couponValue'' ''Please enter a valid coupon value'' e4
                else e4);
          e6 = (if bad_buyXgetY f
                then AList.update ''getY'' msg_buyXgetY (AList.update ''buyX'' msg_buyXgetY e5)
                else e5);
          e7 = (if bad_itemPrice f
                then AList.update ''itemPrice'' ''Please enter a valid item price'' e6
                else e6);
          e8 = (if bad_spendSave f
                then AList.update ''saveAmount'' msg_spendSave
                       (AList.update ''spendAmount'' msg_spendSave e7)
                else e7)
      in e8)"

section \<open>The pricing pipeline\<close>

record breakdown =
  basePrice :: jsnum
  discountAmount :: jsnum
  couponAmount :: jsnum
  promotionAmount :: jsnum
  spendSaveAmount :: jsnum
  bd_shippingFee :: jsnum
  taxAmount :: jsnum

text \<open>The result object; both prices are \<open>null\<close> before the first calculation.\<close>

record results =
  finalPrice :: "jsnum option"
  totalSavings :: "jsnum option"
  breakdown :: breakdown

text \<open>The local constants \<open>basePrice\<close>, \<open>shipping\<close> and \<open>taxRate\<close> of
  \<open>calculateFinalPrice\<close>.\<close>

definition basePrice_of :: "form \<Rightarrow> jsnum" where
  "basePrice_of f = parseFloat (originalPrice f)"

definition shipping_of :: "form \<Rightarrow> jsnum" where
  "shipping_of f = (if truthy (shippingFee f) then parseFloat (shippingFee f) else Fin 0)"

definition taxRate_of :: "form \<Rightarrow> jsnum" where
  "taxRate_of f = (if truthy (taxRate f) then parseFloat (taxRate f) else Fin 0)"

text \<open>Each stage takes the running total and the breakdown and returns them updated.\<close>

definition stage0 :: "form \<Rightarrow> jsnum \<times> breakdown" where
  "stage0 f =
     (basePrice_of f,
      \<lparr>basePrice = basePrice_of f, discountAmount = Fin 0, couponAmount = Fin 0,
       promotionAmount = Fin 0, spendSaveAmount = Fin 0, bd_shippingFee = shipping_of f,
       taxAmount = Fin 0\<rparr>)"

definition discountCond :: "form \<Rightarrow> bool" where
  "discountCond f = (truthy (discountRate f) \<and> jgt (parseFloat (discountRate f)) (Fin 0))"

definition applyDiscount :: "form \<Rightarrow> jsnum \<times> breakdown \<Rightarrow> jsnum \<times> breakdown" where
  "applyDiscount f s =
     (let (runningTotal, b) = s in
      if discountCond f then
        let d = roundToTwoDecimals
                  (jmul runningTotal (jdiv (parseFloat (discountRate f)) (Fin 100)))
        in (jsub runningTotal d, b\<lparr>discountAmount := d\<rparr>)
      else (runningTotal, b))"

definition promotionCond :: "form \<Rightarrow> bool" where
  "promotionCond f =
     (truthy (buyX f) \<and> truthy (getY f) \<and> truthy (itemPrice f)
      \<and> jgt (parseFloat (buyX f)) (Fin 0) \<and> jgt (parseFloat (getY f)) (Fin 0)
      \<and> jgt (parseFloat (itemPrice f)) (Fin 0))"

definition quantity_of :: "form \<Rightarrow> jsnum" where
  "quantity_of f = Math_ceil (jdiv (basePrice_of f) (parseFloat (itemPrice f)))"

definition freeItemsCount_of :: "form \<Rightarrow> jsnum" where
  "freeItemsCount_of f =
     jmul (Math_floor (jdiv (quantity_of f) (parseFloat (buyX f)))) (parseFloat (getY f))"

definition applyBuyXGetY :: "form \<Rightarrow> jsnum \<times> breakdown \<Rightarrow> jsnum \<times> breakdown" where
  "applyBuyXGetY f s =
     (let (runningTotal, b) = s in
      if promotionCond f then
        if jgt (quantity_of f) (Fin 0) then
          let freeItemsValue = roundToTwoDecimals
                (Math_min runningTotal (jmul (freeItemsCount_of f) (parseFloat (itemPrice f))))
          in (jsub runningTotal freeItemsValue, b\<lparr>promotionAmount := freeItemsValue\<rparr>)
        else (runningTotal, b)
      else (runningTotal, b))"

definition couponCond :: "form \<Rightarrow> bool" where
  "couponCond f =
     (useCoupon f \<and> truthy (couponValue f) \<and> jgt (parseFloat (couponValue f)) (Fin 0))"

definition applyCoupon :: "form \<Rightarrow> jsnum \<times> breakdown \<Rightarrow> jsnum \<times> breakdown" where
  "applyCoupon f s =
     (let (runningTotal, b) = s in
      if couponCond f then
        let c = Math_min runningTotal (parseFloat (couponValue f))
        in (jsub runningTotal c, b\<lparr>couponAmount := c\<rparr>)
      else (runningTotal, b))"

definition spendSaveCond :: "form \<Rightarrow> bool" where
  "spendSaveCond f =
     (truthy (spendAmount f) \<and> truthy (saveAmount f)
      \<and> jgt (parseFloat (spendAmount f)) (Fin 0) \<and> jgt (parseFloat (saveAmount f)) (Fin 0)
      \<and> jge (basePrice_of f) (parseFloat (spendAmount f)))"

definition applySpendSave :: "form \<Rightarrow> jsnum \<times> breakdown \<Rightarrow> jsnum \<times> breakdown" where
  "applySpendSave f s =
     (let (runningTotal, b) = s in
      if spendSaveCond f then
        let sv = Math_min runningTotal (parseFloat (saveAmount f))
        in (jsub runningTotal sv, b\<lparr>spendSaveAmount := sv\<rparr>)
      else (runningTotal, b))"

definition addShipping :: "form \<Rightarrow> jsnum \<times> breakdown \<Rightarrow> jsnum \<times> breakdown" where
  "addShipping f s = (let (runningTotal, b) = s in (jadd runningTotal (shipping_of f), b))"

definition applyTax :: "form \<Rightarrow> jsnum \<times> breakdown \<Rightarrow> jsnum \<times> breakdown" where
  "applyTax f s =
     (let (runningTotal, b) = s in
      if jgt (taxRate_of f) (Fin 0) then
        let t = roundToTwoDecimals (jmul runningTotal (jdiv (taxRate_of f) (Fin 100)))
        in (jadd runningTotal t, b\<lparr>taxAmount := t\<rparr>)
      else (runningTotal, b))"

text \<open>The running total and the breakdown after each numbered step of the source.\<close>

definition stage1 :: "form \<Rightarrow> jsnum \<times> breakdown" where
  "stage1 f = applyDiscount f (stage0 f)"

definition stage2 :: "form \<Rightarrow> jsnum \<times> breakdown" where
  "stage2 f = applyBuyXGetY f (stage1 f)"

definition stage3 :: "form \<Rightarrow> jsnum \<times> breakdown" where
  "stage3 f = applyCoupon f (stage2 f)"

definition stage4 :: "form \<Rightarrow> jsnum \<times> breakdown" where
  "stage4 f = applySpendSave f (stage3 f)"

definition stage5 :: "form \<Rightarrow> jsnum \<times> breakdown" where
  "stage5 f = addShipping f (stage4 f)"

definition stage6 :: "form \<Rightarrow> jsnum \<times> breakdown" where
  "stage6 f = applyTax f (stage5 f)"

text \<open>The object passed to \<open>setCalculationResults\<close>: the clamp of step 7, the total of the
  savings and the rounded final price.\<close>

definition evaluate :: "form \<Rightarrow> results" where
  "evaluate f =
     (let (rt, b) = stage6 f;
          runningTotal = Math_max (Fin 0) rt;
          ts = roundToTwoDecimals
                 (jadd (jadd (jadd (discountAmount b) (couponAmount b)) (promotionAmount b))
                    (spendSaveAmount b));
          fp = roundToTwoDecimals runningTotal
      in \<lparr>finalPrice = Some fp, totalSavings = Some ts, breakdown = b\<rparr>)"

section \<open>The component state\<close>

record historyItem =
  h_id :: nat
  h_timestamp :: string
  h_currency :: string
  h_finalPrice :: "jsnum option"
  h_totalSavings :: "jsnum option"
  h_originalPrice :: jsstring
  h_breakdown :: breakdown

record app_state =
  form :: form
  errors :: errors
  isCalculating :: bool
  history :: "historyItem list"
  calculationResults :: results

text \<open>The form before any input, which \<open>resetForm\<close> restores.\<close>

definition emptyForm :: form where
  "emptyForm =
     \<lparr>originalPrice = [], discountRate = [], shippingFee = [], useCoupon = False,
      couponValue = [], buyX = [], getY = [], itemPrice = [], quantity = js ''1'',
      spendAmount = [], saveAmount = [], taxRate = []\<rparr>"

text \<open>The state before the first event.\<close>

definition initialState :: app_state where
  "initialState =
     \<lparr>form = emptyForm,
      errors = [],
      isCalculating = False,
      history = [],
      calculationResults =
        \<lparr>finalPrice = None, totalSavings = None,
         breakdown = \<lparr>basePrice = Fin 0, discountAmount = Fin 0, couponAmount = Fin 0,
                      promotionAmount = Fin 0, spendSaveAmount = Fin 0,
                      bd_shippingFee = Fin 0, taxAmount = Fin 0\<rparr>\<rparr>\<rparr>"

text \<open>\<open>validateInputs\<close> stores the error object and answers whether it has no key.\<close>

definition validateInputs :: "app_state \<Rightarrow> bool \<times> app_state" where
  "validateInputs st = (newErrors (form st) = [], st\<lparr>errors := newErrors (form st)\<rparr>)"

text \<open>\<open>addToHistory\<close>: the new item in front, the first ten kept. The final price, the
  savings and the breakdown come together as the result object; the clock reading, its
  text and the currency label held by the callback are arguments.\<close>

definition newHistoryItem ::
  "string \<Rightarrow> nat \<Rightarrow> string \<Rightarrow> results \<Rightarrow> form \<Rightarrow> historyItem" where
  "newHistoryItem cur now stamp r f =
     \<lparr>h_id = now, h_timestamp = stamp, h_currency = cur,
      h_finalPrice = finalPrice r, h_totalSavings = totalSavings r,
      h_originalPrice = originalPrice f, h_breakdown = breakdown r\<rparr>"

definition addToHistory ::
  "string \<Rightarrow> nat \<Rightarrow> string \<Rightarrow> results \<Rightarrow> app_state \<Rightarrow> app_state" where
  "addToHistory cur now stamp r st =
     st\<lparr>history := take 10 (newHistoryItem cur now stamp r (form st) # history st)\<rparr>"

definition calculateFinalPrice :: "string \<Rightarrow> nat \<Rightarrow> string \<Rightarrow> app_state \<Rightarrow> app_state" where
  "calculateFinalPrice cur now stamp st =
     (let (ok, st1) = validateInputs st in
      if \<not> ok then st1
      else
        let st2 = st1\<lparr>isCalculating := True\<rparr>;
            r = evaluate (form st2);
            st3 = st2\<lparr>calculationResults := r\<rparr>;
            st4 = addToHistory cur now stamp r st3
        in st4\<lparr>isCalculating := False\<rparr>)"

text \<open>The other handlers that change the state: \<open>handleInputChange\<close>, called with the
  name of a field and a text (a boolean for the coupon switch), and \<open>resetForm\<close>. The
  component calls \<open>handleInputChange\<close> with the eleven names below only; any other call
  leaves the form of the model as it is.\<close>

datatype fieldValue = Text jsstring | Flag bool

definition setField :: "string \<Rightarrow> fieldValue \<Rightarrow> form \<Rightarrow> form" where
  "setField field v f =
     (case v of
        Flag b \<Rightarrow> (if field = ''useCoupon'' then f\<lparr>useCoupon := b\<rparr> else f)
      | Text s \<Rightarrow>
          if field = ''originalPrice'' then f\<lparr>originalPrice := s\<rparr>
          else if field = ''discountRate'' then f\<lparr>discountRate := s\<rparr>
          else if field = ''shippingFee'' then f\<lparr>shippingFee := s\<rparr>
          else if field = ''couponValue'' then f\<lparr>couponValue := s\<rparr>
          else if field = ''buyX'' then f\<lparr>buyX := s\<rparr>
          else if field = ''getY'' then f\<lparr>getY := s\<rparr>
          else if field = ''itemPrice'' then f\<lparr>itemPrice := s\<rparr>
          else if field = ''spendAmount'' then f\<lparr>spendAmount := s\<rparr>
          else if field = ''saveAmount'' then f\<lparr>saveAmount := s\<rparr>
          else if field = ''taxRate'' then f\<lparr>taxRate := s\<rparr>
          else f)"

definition handleInputChange :: "string \<Rightarrow> fieldValue \<Rightarrow> app_state \<Rightarrow> app_state" where
  "handleInputChange field v st =
     (let st1 = st\<lparr>form := setField field v (form st)\<rparr> in
      if (case map_of (errors st) field of None \<Rightarrow> False | Some m \<Rightarrow> m \<noteq> [])
      then st1\<lparr>errors := AList.delete field (errors st)\<rparr>
      else st1)"

definition resetForm :: "app_state \<Rightarrow> app_state" where
  "resetForm st = st\<lparr>form := emptyForm, errors := []\<rparr>"

datatype event = InputChange string fieldValue | Calculate string nat string | Reset

fun step :: "event \<Rightarrow> app_state \<Rightarrow> app_state" where
  "step (InputChange field v) st = handleInputChange field v st"
| "step (Calculate cur now stamp) st = calculateFinalPrice cur now stamp st"
| "step Reset st = resetForm st"

text \<open>The state after a sequence of events, the first event first.\<close>

definition run :: "event list \<Rightarrow> app_state \<Rightarrow> app_state" where
  "run es st = foldl (\<lambda>s e. step e s) st es"

section \<open>Example inputs\<close>

text \<open>A price that is a single space.\<close>

definition form_blank_price :: form where
  "form_blank_price = emptyForm\<lparr>originalPrice := js '' ''\<rparr>"

text \<open>An infinite price with a discount of one half.\<close>

definition form_infinite_price :: form where
  "form_infinite_price = emptyForm\<lparr>originalPrice := js ''Infinity'', discountRate := js ''50''\<rparr>"

text \<open>A price below one cent, one item of that price bought and one free, and a coupon.\<close>

definition form_subcent :: form where
  "form_subcent =
     emptyForm\<lparr>originalPrice := js ''0.006'', buyX := js ''1'', getY := js ''1'',
               itemPrice := js ''0.006'', useCoupon := True, couponValue := js ''1''\<rparr>"

text \<open>A promotion whose "buy" field is a single space, and a spend-and-save pair whose
  "spend" field is a single space.\<close>

definition form_blank_buyX :: form where
  "form_blank_buyX =
     emptyForm\<lparr>originalPrice := js ''100'', buyX := js '' '', getY := js ''1'', itemPrice := js ''25''\<rparr>"

definition form_blank_spend :: form where
  "form_blank_spend =
     emptyForm\<lparr>originalPrice := js ''100'', spendAmount := js '' '', saveAmount := js ''10''\<rparr>"

text \<open>An item price with three decimals.\<close>

definition form_third :: form where
  "form_third =
     emptyForm\<lparr>originalPrice := js ''100'', buyX := js ''3'', getY := js ''1'',
               itemPrice := js ''33.333''\<rparr>"

text \<open>The scenarios of the specification.\<close>

definition form_coupon_capped :: form where
  "form_coupon_capped =
     emptyForm\<lparr>originalPrice := js ''50'', useCoupon := True, couponValue := js ''100''\<rparr>"

definition form_promotion :: form where
  "form_promotion =
     emptyForm\<lparr>originalPrice := js ''100'', buyX := js ''2'', getY := js ''1'', itemPrice := js ''25''\<rparr>"

definition form_tax :: form where
  "form_tax = emptyForm\<lparr>originalPrice := js ''100'', shippingFee := js ''10'', taxRate := js ''10''\<rparr>"

text \<open>A discount of one half before a promotion, and before a spend-and-save rebate whose
  threshold lies between the discounted and the original price.\<close>

definition form_discount_promotion :: form where
  "form_discount_promotion =
     emptyForm\<lparr>originalPrice := js ''100'', discountRate := js ''50'', buyX := js ''3'',
               getY := js ''1'', itemPrice := js ''30''\<rparr>"

definition form_discount_spend :: form where
  "form_discount_spend =
     emptyForm\<lparr>originalPrice := js ''100'', discountRate := js ''50'', spendAmount := js ''80'',
               saveAmount := js ''10''\<rparr>"

text \<open>A spend-and-save rebate whose threshold is above the original price.\<close>

definition form_below_threshold :: form where
  "form_below_threshold =
     emptyForm\<lparr>originalPrice := js ''50'', spendAmount := js ''80'', saveAmount := js ''10''\<rparr>"

text \<open>A negative price with a discount above 100, and an order with every kind of amount.\<close>

definition form_two_errors :: form where
  "form_two_errors = emptyForm\<lparr>originalPrice := js ''-5'', discountRate := js ''150''\<rparr>"

definition form_all :: form where
  "form_all =
     emptyForm\<lparr>originalPrice := js ''100'', discountRate := js ''20'', shippingFee := js ''10'',
               useCoupon := True, couponValue := js ''5'', taxRate := js ''10''\<rparr>"

text \<open>A price that is a single space with a discount of 150, and a form whose every text
  is a single space, the coupon switched on.\<close>

definition form_blank_discount :: form where
  "form_blank_discount = emptyForm\<lparr>originalPrice := js '' '', discountRate := js ''150''\<rparr>"

definition form_all_blank :: form where
  "form_all_blank =
     \<lparr>originalPrice = js '' '', discountRate = js '' '', shippingFee = js '' '',
      useCoupon = True, couponValue = js '' '', buyX = js '' '', getY = js '' '',
      itemPrice = js '' '', quantity = js ''1'', spendAmount = js '' '',
      saveAmount = js '' '', taxRate = js '' ''\<rparr>"

text \<open>A tax of 15 on a price of 10 with a shipping fee of 3.7; three items of 9.95 for
  29.85, two bought and one free; a discount of one half on 4.27.\<close>

definition form_tax_order :: form where
  "form_tax_order =
     emptyForm\<lparr>originalPrice := js ''10'', shippingFee := js ''3.7'', taxRate := js ''15''\<rparr>"

definition form_quantity_up :: form where
  "form_quantity_up =
     emptyForm\<lparr>originalPrice := js ''29.85'', buyX := js ''2'', getY := js ''1'',
               itemPrice := js ''9.95''\<rparr>"

definition form_half_discount :: form where
  "form_half_discount = emptyForm\<lparr>originalPrice := js ''4.27'', discountRate := js ''50''\<rparr>"

section \<open>The stages, one at a time\<close>

lemma results_step:
  "calculationResults (calculateFinalPrice cur now stamp st) =
     (if newErrors (form st) = [] then evaluate (form st) else calculationResults st)"
  by (simp add: calculateFinalPrice_def validateInputs_def addToHistory_def Let_def)

lemma invalid_step:
  "newErrors (form st) \<noteq> [] \<Longrightarrow>
     calculateFinalPrice cur now stamp st = st\<lparr>errors := newErrors (form st)\<rparr>"
  by (simp add: calculateFinalPrice_def validateInputs_def)

lemma valid_step:
  "newErrors (form st) = [] \<Longrightarrow>
     calculateFinalPrice cur now stamp st =
       st\<lparr>errors := [], calculationResults := evaluate (form st),
          history := newHistoryItem cur now stamp (evaluate (form st)) (form st)
                       # take 9 (history st),
          isCalculating := False\<rparr>"
  by (simp add: calculateFinalPrice_def validateInputs_def addToHistory_def Let_def)

lemma evaluate_breakdown: "breakdown (evaluate f) = snd (stage6 f)"
  by (simp add: evaluate_def Let_def split_beta)

lemma evaluate_finalPrice:
  "finalPrice (evaluate f) = Some (roundToTwoDecimals (Math_max (Fin 0) (fst (stage6 f))))"
  by (simp add: evaluate_def Let_def split_beta)



lemma stage4_spendSave:
  "stage4 f =
     (if spendSaveCond f
      then (jsub (fst (stage3 f)) (Math_min (fst (stage3 f)) (parseFloat (saveAmount f))),
            (snd (stage3 f))\<lparr>spendSaveAmount :=
               Math_min (fst (stage3 f)) (parseFloat (saveAmount f))\<rparr>)
      else stage3 f)"
  by (simp add: stage4_def applySpendSave_def Let_def split_beta)




lemma stage3_spendSave_zero: "spendSaveAmount (snd (stage3 f)) = Fin 0"
proof -
  have "spendSaveAmount (snd (stage1 f)) = Fin 0"
    by (simp add: stage1_def stage0_def applyDiscount_def Let_def split_beta)
  then have "spendSaveAmount (snd (stage2 f)) = Fin 0"
    by (simp add: stage2_def applyBuyXGetY_def Let_def split_beta)
  then show ?thesis
    by (simp add: stage3_def applyCoupon_def Let_def split_beta)
qed


lemma later_stages_keep_savings:
  "discountAmount (snd (stage6 f)) = discountAmount (snd (stage4 f))"
  "couponAmount (snd (stage6 f)) = couponAmount (snd (stage4 f))"
  "promotionAmount (snd (stage6 f)) = promotionAmount (snd (stage4 f))"
  "spendSaveAmount (snd (stage6 f)) = spendSaveAmount (snd (stage4 f))"
  by (simp_all add: stage6_def stage5_def applyTax_def addShipping_def Let_def split_beta)








lemma pow2_pos: "0 < pow2 k"
  by (simp add: pow2_def)

lemma roundHalfEven_nonneg: "0 \<le> x \<Longrightarrow> 0 \<le> roundHalfEven x"
  by (auto simp: roundHalfEven_def Let_def)

lemma toDouble_nonneg:
  assumes "0 \<le> q"
  shows "jge (toDouble q) (Fin 0)"
proof (cases "q = 0")
  case True
  then show ?thesis
    by (simp add: toDouble_def jge_def jle_def)
next
  case False
  with assms have pos: "0 < q"
    by simp
  have "0 \<le> roundHalfEven (\<bar>q\<bar> / pow2 k)" for k
    using pow2_pos [of k] by (intro roundHalfEven_nonneg) simp
  then have "0 \<le> rat_of_int (roundHalfEven (\<bar>q\<bar> / pow2 k)) * pow2 k" for k
    using pow2_pos [of k] by simp
  then have "\<not> rat_of_int (roundHalfEven (\<bar>q\<bar> / pow2 k)) * pow2 k < 0" for k
    by (simp add: not_less)
  then show ?thesis
    using pos by (simp add: toDouble_def Let_def jge_def jle_def)
qed

lemma jge_zero_cases: "jge x (Fin 0) \<longleftrightarrow> x = PInf \<or> (\<exists>r. x = Fin r \<and> 0 \<le> r)"
  by (cases x) (auto simp: jge_def jle_def)

lemma roundToTwoDecimals_nonneg:
  assumes "jge x (Fin 0)"
  shows "jge (roundToTwoDecimals x) (Fin 0)"
proof -
  have step1: "jge (jadd x Number_EPSILON) (Fin 0)"
    using assms toDouble_nonneg
    by (auto simp: jge_zero_cases [of x] Number_EPSILON_def) (simp add: jge_def jle_def)
  have step2: "jge (jmul y (Fin 100)) (Fin 0)" if "jge y (Fin 0)" for y
    using that toDouble_nonneg
    by (auto simp: jge_zero_cases [of y]) (simp add: jge_def jle_def)
  have step3: "jge (Math_round y) (Fin 0)" if "jge y (Fin 0)" for y
    using that by (auto simp: jge_zero_cases [of y]) (simp_all add: jge_def jle_def)
  have step4: "jge (jdiv y (Fin 100)) (Fin 0)" if "jge y (Fin 0)" for y
    using that toDouble_nonneg
    by (auto simp: jge_zero_cases [of y]) (simp add: jge_def jle_def)
  show ?thesis
    unfolding roundToTwoDecimals_def
    by (intro step4 step3 step2 step1)
qed

lemma roundToTwoDecimals_NaN: "roundToTwoDecimals NaN = NaN"
  by (simp add: roundToTwoDecimals_def)

lemma finalPrice_nonneg_unless_NaN:
  assumes "finalPrice (evaluate f) = Some p"
  shows "p = NaN \<or> jge p (Fin 0)"
proof -
  from assms have p: "p = roundToTwoDecimals (Math_max (Fin 0) (fst (stage6 f)))"
    by (simp add: evaluate_finalPrice)
  show ?thesis
  proof (cases "fst (stage6 f) = NaN")
    case True
    then show ?thesis
      by (simp add: p Math_max_def roundToTwoDecimals_NaN)
  next
    case False
    then have "jge (Math_max (Fin 0) (fst (stage6 f))) (Fin 0)"
      by (cases "fst (stage6 f)") (auto simp: Math_max_def jge_def jle_def)
    then show ?thesis
      unfolding p by (intro disjI2 roundToTwoDecimals_nonneg)
  qed
qed

section \<open>The examples, evaluated\<close>

lemma blank_is_not_a_number:
  "truthy (js '' '')" "\<not> isNaN (js '' '')" "parseFloat (js '' '') = NaN"
  "\<not> jle NaN (Fin 0)" "\<not> jge NaN (Fin 0)" "\<not> jgt NaN (Fin 0)"
  by code_simp+

lemma examples_valid:
  "newErrors form_blank_price = []" "newErrors form_subcent = []"
  "newErrors form_blank_buyX = []" "newErrors form_blank_spend = []"
  "newErrors form_third = []" "newErrors form_coupon_capped = []"
  "newErrors form_promotion = []" "newErrors form_tax = []"
  "newErrors form_discount_promotion = []" "newErrors form_discount_spend = []"
  "newErrors form_all = []" "newErrors form_below_threshold = []"
  "newErrors form_infinite_price = []" "newErrors form_all_blank = []"
  "newErrors form_tax_order = []" "newErrors form_quantity_up = []"
  "newErrors form_half_discount = []"
  by code_simp+

lemma two_errors_found:
  "newErrors form_two_errors =
     [(''originalPrice'', ''Please enter a valid positive price''),
      (''discountRate'', ''Discount must be between 0-99%'')]"
  by code_simp

lemma blank_discount_found:
  "newErrors form_blank_discount = [(''discountRate'', ''Discount must be between 0-99%'')]"
  by code_simp

lemma blank_buyX_fields:
  "buyX form_blank_buyX = js '' ''" "getY form_blank_buyX = js ''1''"
  "itemPrice form_blank_buyX = js ''25''"
  by (simp_all add: form_blank_buyX_def emptyForm_def)

lemma blank_spend_fields:
  "spendAmount form_blank_spend = js '' ''" "saveAmount form_blank_spend = js ''10''"
  by (simp_all add: form_blank_spend_def emptyForm_def)




lemma quantity_up_fields:
  "promotionCond form_quantity_up"
  "parseFloat (originalPrice form_quantity_up) = toDouble (2985 / 100)"
  "parseFloat (itemPrice form_quantity_up) = toDouble (995 / 100)"
  "jdiv (toDouble (2985 / 100)) (toDouble (995 / 100))
     = toDouble (30000000000000004 / 10000000000000000)"
  "quantity_of form_quantity_up = Fin 4" "freeItemsCount_of form_quantity_up = Fin 2"
  by code_simp+

lemma discount_spend_fields:
  "spendSaveCond form_discount_spend" "parseFloat (originalPrice form_discount_spend) = Fin 100"
  "parseFloat (spendAmount form_discount_spend) = Fin 80"
  "parseFloat (saveAmount form_discount_spend) = Fin 10"
  by code_simp+

lemma below_threshold_fields:
  "\<not> spendSaveCond form_below_threshold"
  "parseFloat (originalPrice form_below_threshold) = Fin 50"
  "parseFloat (spendAmount form_below_threshold) = Fin 80"
  by code_simp+


lemma tax_fields: "taxRate_of form_tax = Fin 10" "shipping_of form_tax = Fin 10"
  by code_simp+



lemma blank_price_stage0:
  "stage0 form_blank_price =
     (NaN,
      \<lparr>basePrice = NaN, discountAmount = Fin 0,
       couponAmount = Fin 0, promotionAmount = Fin 0,
       spendSaveAmount = Fin 0, bd_shippingFee = Fin 0,
       taxAmount = Fin 0\<rparr>)"
  by code_simp

lemma blank_price_result:
  "evaluate form_blank_price =
     \<lparr>finalPrice = Some NaN, totalSavings = Some (Fin 0),
      breakdown =
      \<lparr>basePrice = NaN, discountAmount = Fin 0,
       couponAmount = Fin 0, promotionAmount = Fin 0,
       spendSaveAmount = Fin 0, bd_shippingFee = Fin 0,
       taxAmount = Fin 0\<rparr>\<rparr>"
  unfolding evaluate_def stage6_def stage5_def stage4_def stage3_def stage2_def stage1_def blank_price_stage0 by code_simp

lemma infinite_price_stage0:
  "stage0 form_infinite_price =
     (PInf,
      \<lparr>basePrice = PInf, discountAmount = Fin 0,
       couponAmount = Fin 0, promotionAmount = Fin 0,
       spendSaveAmount = Fin 0, bd_shippingFee = Fin 0,
       taxAmount = Fin 0\<rparr>)"
  by code_simp

lemma infinite_price_stage1:
  "stage1 form_infinite_price =
     (NaN,
      \<lparr>basePrice = PInf, discountAmount = PInf,
       couponAmount = Fin 0, promotionAmount = Fin 0,
       spendSaveAmount = Fin 0, bd_shippingFee = Fin 0,
       taxAmount = Fin 0\<rparr>)"
  unfolding stage1_def infinite_price_stage0 by code_simp

lemma infinite_price_result:
  "evaluate form_infinite_price =
     \<lparr>finalPrice = Some NaN, totalSavings = Some PInf,
      breakdown =
      \<lparr>basePrice = PInf, discountAmount = PInf,
       couponAmount = Fin 0, promotionAmount = Fin 0,
       spendSaveAmount = Fin 0, bd_shippingFee = Fin 0,
       taxAmount = Fin 0\<rparr>\<rparr>"
  unfolding evaluate_def stage6_def stage5_def stage4_def stage3_def stage2_def infinite_price_stage1 by code_simp

lemma subcent_stage0:
  "stage0 form_subcent =
     (toDouble (3 / 500),
      \<lparr>basePrice = toDouble (3 / 500), discountAmount = Fin 0,
       couponAmount = Fin 0, promotionAmount = Fin 0,
       spendSaveAmount = Fin 0, bd_shippingFee = Fin 0,
       taxAmount = Fin 0\<rparr>)"
  by code_simp

lemma subcent_stage2:
  "stage2 form_subcent =
     (toDouble (- (1 / 250)),
      \<lparr>basePrice = toDouble (3 / 500), discountAmount = Fin 0,
       couponAmount = Fin 0, promotionAmount = toDouble (1 / 100),
       spendSaveAmount = Fin 0, bd_shippingFee = Fin 0,
       taxAmount = Fin 0\<rparr>)"
  unfolding stage2_def stage1_def subcent_stage0 by code_simp

lemma subcent_stage3:
  "stage3 form_subcent =
     (Fin 0,
      \<lparr>basePrice = toDouble (3 / 500), discountAmount = Fin 0,
       couponAmount = toDouble (- (1 / 250)), promotionAmount = toDouble (1 / 100),
       spendSaveAmount = Fin 0, bd_shippingFee = Fin 0,
       taxAmount = Fin 0\<rparr>)"
  unfolding stage3_def subcent_stage2 by code_simp

lemma subcent_result:
  "evaluate form_subcent =
     \<lparr>finalPrice = Some (Fin 0), totalSavings = Some (toDouble (1 / 100)),
      breakdown =
      \<lparr>basePrice = toDouble (3 / 500), discountAmount = Fin 0,
       couponAmount = toDouble (- (1 / 250)), promotionAmount = toDouble (1 / 100),
       spendSaveAmount = Fin 0, bd_shippingFee = Fin 0,
       taxAmount = Fin 0\<rparr>\<rparr>"
  unfolding evaluate_def stage6_def stage5_def stage4_def subcent_stage3 by code_simp

lemma blank_buyX_stage0:
  "stage0 form_blank_buyX =
     (Fin 100,
      \<lparr>basePrice = Fin 100, discountAmount = Fin 0,
       couponAmount = Fin 0, promotionAmount = Fin 0,
       spendSaveAmount = Fin 0, bd_shippingFee = Fin 0,
       taxAmount = Fin 0\<rparr>)"
  by code_simp

lemma blank_buyX_result:
  "evaluate form_blank_buyX =
     \<lparr>finalPrice = Some (Fin 100), totalSavings = Some (Fin 0),
      breakdown =
      \<lparr>basePrice = Fin 100, discountAmount = Fin 0,
       couponAmount = Fin 0, promotionAmount = Fin 0,
       spendSaveAmount = Fin 0, bd_shippingFee = Fin 0,
       taxAmount = Fin 0\<rparr>\<rparr>"
  unfolding evaluate_def stage6_def stage5_def stage4_def stage3_def stage2_def stage1_def blank_buyX_stage0 by code_simp

lemma blank_spend_stage0:
  "stage0 form_blank_spend =
     (Fin 100,
      \<lparr>basePrice = Fin 100, discountAmount = Fin 0,
       couponAmount = Fin 0, promotionAmount = Fin 0,
       spendSaveAmount = Fin 0, bd_shippingFee = Fin 0,
       taxAmount = Fin 0\<rparr>)"
  by code_simp

lemma blank_spend_result:
  "evaluate form_blank_spend =
     \<lparr>finalPrice = Some (Fin 100), totalSavings = Some (Fin 0),
      breakdown =
      \<lparr>basePrice = Fin 100, discountAmount = Fin 0,
       couponAmount = Fin 0, promotionAmount = Fin 0,
       spendSaveAmount = Fin 0, bd_shippingFee = Fin 0,
       taxAmount = Fin 0\<rparr>\<rparr>"
  unfolding evaluate_def stage6_def stage5_def stage4_def stage3_def stage2_def stage1_def blank_spend_stage0 by code_simp




lemma coupon_capped_stage0:
  "stage0 form_coupon_capped =
     (Fin 50,
      \<lparr>basePrice = Fin 50, discountAmount = Fin 0,
       couponAmount = Fin 0, promotionAmount = Fin 0,
       spendSaveAmount = Fin 0, bd_shippingFee = Fin 0,
       taxAmount = Fin 0\<rparr>)"
  by code_simp

lemma coupon_capped_stage3:
  "stage3 form_coupon_capped =
     (Fin 0,
      \<lparr>basePrice = Fin 50, discountAmount = Fin 0,
       couponAmount = Fin 50, promotionAmount = Fin 0,
       spendSaveAmount = Fin 0, bd_shippingFee = Fin 0,
       taxAmount = Fin 0\<rparr>)"
  unfolding stage3_def stage2_def stage1_def coupon_capped_stage0 by code_simp

lemma coupon_capped_result:
  "evaluate form_coupon_capped =
     \<lparr>finalPrice = Some (Fin 0), totalSavings = Some (Fin 50),
      breakdown =
      \<lparr>basePrice = Fin 50, discountAmount = Fin 0,
       couponAmount = Fin 50, promotionAmount = Fin 0,
       spendSaveAmount = Fin 0, bd_shippingFee = Fin 0,
       taxAmount = Fin 0\<rparr>\<rparr>"
  unfolding evaluate_def stage6_def stage5_def stage4_def coupon_capped_stage3 by code_simp








lemma discount_promotion_stage0:
  "stage0 form_discount_promotion =
     (Fin 100,
      \<lparr>basePrice = Fin 100, discountAmount = Fin 0,
       couponAmount = Fin 0, promotionAmount = Fin 0,
       spendSaveAmount = Fin 0, bd_shippingFee = Fin 0,
       taxAmount = Fin 0\<rparr>)"
  by code_simp

lemma discount_promotion_stage1:
  "stage1 form_discount_promotion =
     (Fin 50,
      \<lparr>basePrice = Fin 100, discountAmount = Fin 50,
       couponAmount = Fin 0, promotionAmount = Fin 0,
       spendSaveAmount = Fin 0, bd_shippingFee = Fin 0,
       taxAmount = Fin 0\<rparr>)"
  unfolding stage1_def discount_promotion_stage0 by code_simp

lemma discount_promotion_stage2:
  "stage2 form_discount_promotion =
     (Fin 20,
      \<lparr>basePrice = Fin 100, discountAmount = Fin 50,
       couponAmount = Fin 0, promotionAmount = Fin 30,
       spendSaveAmount = Fin 0, bd_shippingFee = Fin 0,
       taxAmount = Fin 0\<rparr>)"
  unfolding stage2_def discount_promotion_stage1 by code_simp

lemma discount_promotion_result:
  "evaluate form_discount_promotion =
     \<lparr>finalPrice = Some (Fin 20), totalSavings = Some (Fin 80),
      breakdown =
      \<lparr>basePrice = Fin 100, discountAmount = Fin 50,
       couponAmount = Fin 0, promotionAmount = Fin 30,
       spendSaveAmount = Fin 0, bd_shippingFee = Fin 0,
       taxAmount = Fin 0\<rparr>\<rparr>"
  unfolding evaluate_def stage6_def stage5_def stage4_def stage3_def discount_promotion_stage2 by code_simp

lemma discount_spend_stage0:
  "stage0 form_discount_spend =
     (Fin 100,
      \<lparr>basePrice = Fin 100, discountAmount = Fin 0,
       couponAmount = Fin 0, promotionAmount = Fin 0,
       spendSaveAmount = Fin 0, bd_shippingFee = Fin 0,
       taxAmount = Fin 0\<rparr>)"
  by code_simp

lemma discount_spend_stage1:
  "stage1 form_discount_spend =
     (Fin 50,
      \<lparr>basePrice = Fin 100, discountAmount = Fin 50,
       couponAmount = Fin 0, promotionAmount = Fin 0,
       spendSaveAmount = Fin 0, bd_shippingFee = Fin 0,
       taxAmount = Fin 0\<rparr>)"
  unfolding stage1_def discount_spend_stage0 by code_simp

lemma discount_spend_stage4:
  "stage4 form_discount_spend =
     (Fin 40,
      \<lparr>basePrice = Fin 100, discountAmount = Fin 50,
       couponAmount = Fin 0, promotionAmount = Fin 0,
       spendSaveAmount = Fin 10, bd_shippingFee = Fin 0,
       taxAmount = Fin 0\<rparr>)"
  unfolding stage4_def stage3_def stage2_def discount_spend_stage1 by code_simp

lemma discount_spend_result:
  "evaluate form_discount_spend =
     \<lparr>finalPrice = Some (Fin 40), totalSavings = Some (Fin 60),
      breakdown =
      \<lparr>basePrice = Fin 100, discountAmount = Fin 50,
       couponAmount = Fin 0, promotionAmount = Fin 0,
       spendSaveAmount = Fin 10, bd_shippingFee = Fin 0,
       taxAmount = Fin 0\<rparr>\<rparr>"
  unfolding evaluate_def stage6_def stage5_def discount_spend_stage4 by code_simp

lemma below_threshold_stage0:
  "stage0 form_below_threshold =
     (Fin 50,
      \<lparr>basePrice = Fin 50, discountAmount = Fin 0,
       couponAmount = Fin 0, promotionAmount = Fin 0,
       spendSaveAmount = Fin 0, bd_shippingFee = Fin 0,
       taxAmount = Fin 0\<rparr>)"
  by code_simp

lemma below_threshold_result:
  "evaluate form_below_threshold =
     \<lparr>finalPrice = Some (Fin 50), totalSavings = Some (Fin 0),
      breakdown =
      \<lparr>basePrice = Fin 50, discountAmount = Fin 0,
       couponAmount = Fin 0, promotionAmount = Fin 0,
       spendSaveAmount = Fin 0, bd_shippingFee = Fin 0,
       taxAmount = Fin 0\<rparr>\<rparr>"
  unfolding evaluate_def stage6_def stage5_def stage4_def stage3_def stage2_def stage1_def below_threshold_stage0 by code_simp











lemma quantity_up_stage0:
  "stage0 form_quantity_up =
     (toDouble (597 / 20),
      \<lparr>basePrice = toDouble (597 / 20), discountAmount = Fin 0,
       couponAmount = Fin 0, promotionAmount = Fin 0,
       spendSaveAmount = Fin 0, bd_shippingFee = Fin 0,
       taxAmount = Fin 0\<rparr>)"
  by code_simp

lemma quantity_up_stage2:
  "stage2 form_quantity_up =
     (toDouble (9950000000000003 / 1000000000000000),
      \<lparr>basePrice = toDouble (597 / 20), discountAmount = Fin 0,
       couponAmount = Fin 0, promotionAmount = toDouble (199 / 10),
       spendSaveAmount = Fin 0, bd_shippingFee = Fin 0,
       taxAmount = Fin 0\<rparr>)"
  unfolding stage2_def stage1_def quantity_up_stage0 by code_simp

lemma quantity_up_result:
  "evaluate form_quantity_up =
     \<lparr>finalPrice = Some (toDouble (199 / 20)), totalSavings = Some (toDouble (199 / 10)),
      breakdown =
      \<lparr>basePrice = toDouble (597 / 20), discountAmount = Fin 0,
       couponAmount = Fin 0, promotionAmount = toDouble (199 / 10),
       spendSaveAmount = Fin 0, bd_shippingFee = Fin 0,
       taxAmount = Fin 0\<rparr>\<rparr>"
  unfolding evaluate_def stage6_def stage5_def stage4_def stage3_def quantity_up_stage2 by code_simp

lemma half_discount_stage0:
  "stage0 form_half_discount =
     (toDouble (427 / 100),
      \<lparr>basePrice = toDouble (427 / 100), discountAmount = Fin 0,
       couponAmount = Fin 0, promotionAmount = Fin 0,
       spendSaveAmount = Fin 0, bd_shippingFee = Fin 0,
       taxAmount = Fin 0\<rparr>)"
  by code_simp

lemma half_discount_stage1:
  "stage1 form_half_discount =
     (toDouble (21399999999999997 / 10000000000000000),
      \<lparr>basePrice = toDouble (427 / 100), discountAmount = toDouble (213 / 100),
       couponAmount = Fin 0, promotionAmount = Fin 0,
       spendSaveAmount = Fin 0, bd_shippingFee = Fin 0,
       taxAmount = Fin 0\<rparr>)"
  unfolding stage1_def half_discount_stage0 by code_simp

lemma half_discount_result:
  "evaluate form_half_discount =
     \<lparr>finalPrice = Some (toDouble (107 / 50)), totalSavings = Some (toDouble (213 / 100)),
      breakdown =
      \<lparr>basePrice = toDouble (427 / 100), discountAmount = toDouble (213 / 100),
       couponAmount = Fin 0, promotionAmount = Fin 0,
       spendSaveAmount = Fin 0, bd_shippingFee = Fin 0,
       taxAmount = Fin 0\<rparr>\<rparr>"
  unfolding evaluate_def stage6_def stage5_def stage4_def stage3_def stage2_def half_discount_stage1 by code_simp

lemma blank_discount_stage0:
  "stage0 form_blank_discount =
     (NaN,
      \<lparr>basePrice = NaN, discountAmount = Fin 0,
       couponAmount = Fin 0, promotionAmount = Fin 0,
       spendSaveAmount = Fin 0, bd_shippingFee = Fin 0,
       taxAmount = Fin 0\<rparr>)"
  by code_simp

lemma blank_discount_stage1:
  "stage1 form_blank_discount =
     (NaN,
      \<lparr>basePrice = NaN, discountAmount = NaN,
       couponAmount = Fin 0, promotionAmount = Fin 0,
       spendSaveAmount = Fin 0, bd_shippingFee = Fin 0,
       taxAmount = Fin 0\<rparr>)"
  unfolding stage1_def blank_discount_stage0 by code_simp

lemma blank_discount_result:
  "evaluate form_blank_discount =
     \<lparr>finalPrice = Some NaN, totalSavings = Some NaN,
      breakdown =
      \<lparr>basePrice = NaN, discountAmount = NaN,
       couponAmount = Fin 0, promotionAmount = Fin 0,
       spendSaveAmount = Fin 0, bd_shippingFee = Fin 0,
       taxAmount = Fin 0\<rparr>\<rparr>"
  unfolding evaluate_def stage6_def stage5_def stage4_def stage3_def stage2_def blank_discount_stage1 by code_simp

lemma all_blank_stage0:
  "stage0 form_all_blank =
     (NaN,
      \<lparr>basePrice = NaN, discountAmount = Fin 0,
       couponAmount = Fin 0, promotionAmount = Fin 0,
       spendSaveAmount = Fin 0, bd_shippingFee = NaN,
       taxAmount = Fin 0\<rparr>)"
  by code_simp

lemma all_blank_result:
  "evaluate form_all_blank =
     \<lparr>finalPrice = Some NaN, totalSavings = Some (Fin 0),
      breakdown =
      \<lparr>basePrice = NaN, discountAmount = Fin 0,
       couponAmount = Fin 0, promotionAmount = Fin 0,
       spendSaveAmount = Fin 0, bd_shippingFee = NaN,
       taxAmount = Fin 0\<rparr>\<rparr>"
  unfolding evaluate_def stage6_def stage5_def stage4_def stage3_def stage2_def stage1_def all_blank_stage0 by code_simp

section \<open>The arithmetic on known values\<close>

text \<open>Sums, products and quotients round as binary64 arithmetic does: 0.1 + 0.2 is
  0.30000000000000004, 1.02 - 0.2 is 0.8200000000000001, 13.7 * 0.15 is
  2.0549999999999997 while 13.7 * 15 / 100 is 2.055, and 2.135 is rounded to 2.13.\<close>

lemma binary64_arithmetic:
  "jadd (toDouble (1 / 10)) (toDouble (2 / 10))
     = toDouble (30000000000000004 / 100000000000000000)"
  "jsub (toDouble (102 / 100)) (toDouble (2 / 10))
     = toDouble (8200000000000001 / 10000000000000000)"
  "jmul (toDouble (137 / 10)) (jdiv (Fin 15) (Fin 100))
     = toDouble (20549999999999997 / 10000000000000000)"
  "jdiv (jmul (toDouble (137 / 10)) (Fin 15)) (Fin 100) = toDouble (2055 / 1000)"
  "roundToTwoDecimals (toDouble (2135 / 1000)) = toDouble (213 / 100)"
  by code_simp+

text \<open>A discount of one half on 4.27 is 2.13, and the final price is 2.14.\<close>

lemma half_discount_rounds_down:
  "discountAmount (breakdown (evaluate form_half_discount)) = toDouble (213 / 100)
   \<and> finalPrice (evaluate form_half_discount) = Some (toDouble (214 / 100))"
  unfolding half_discount_result by simp

text \<open>A literal is rounded to binary64, and a no-break space is white space.\<close>

lemma literals:
  "parseFloat (js ''99.99999999999999999'') = Fin 100"
  "parseFloat (0xA0 # js ''5'') = Fin 5"
  "\<not> isNaN (0xA0 # js ''5'')"
  "toNumber [0xA0, 0x2003] = Fin 0"
  "parseFloat (js ''0x10'') = Fin 0"
  "toNumber (js ''0x10'') = Fin 16"
  by code_simp+

section \<open>The final price\<close>

lemma coupon_capped_scenario:
  "couponAmount (breakdown (evaluate form_coupon_capped)) = Fin 50
   \<and> finalPrice (evaluate form_coupon_capped) = Some (Fin 0)"
  by (simp add: coupon_capped_result)

text \<open>A price of \<open>Infinity\<close> with a discount passes validation as well; the discount is
  infinite and the running total, and with it the final price, is \<open>NaN\<close>.\<close>

lemma infinite_price_final_price_is_NaN:
  "newErrors form_infinite_price = []
   \<and> finalPrice (evaluate form_infinite_price) = Some NaN"
  by (simp add: examples_valid infinite_price_result)

text \<open>
  Claim C1. The final price is meant never to be below zero for an input that passes
  validation. The code breaks this at the price that is a single space: validation finds
  no error, the final price stored by the calculation is \<open>NaN\<close>, and \<open>NaN >= 0\<close> is false.
\<close>

theorem blank_price_final_price_is_NaN:
  "newErrors form_blank_price = []
   \<and> finalPrice (calculationResults
        (calculateFinalPrice cur now stamp (initialState\<lparr>form := form_blank_price\<rparr>)))
      = Some NaN
   \<and> \<not> jge NaN (Fin 0)"
  by (simp add: results_step examples_valid blank_price_result blank_is_not_a_number)

section \<open>The breakdown\<close>

text \<open>
  Claim C2. Every amount of the breakdown is meant to be non-negative, the promotion never
  taking the running total below zero. The code breaks this at a price of 0.006 with one
  item of 0.006 bought, one free, and a coupon of 1: the promotion is rounded up to 0.01,
  the running total becomes -0.004, and the coupon amount is that negative total.
\<close>

theorem subcent_price_negative_coupon:
  "newErrors form_subcent = []
   \<and> fst (stage1 form_subcent) = toDouble (3 / 500)
   \<and> promotionAmount (breakdown (evaluate form_subcent)) = toDouble (1 / 100)
   \<and> fst (stage2 form_subcent) = toDouble (- (1 / 250))
   \<and> couponAmount (breakdown (evaluate form_subcent)) = toDouble (- (1 / 250))
   \<and> jlt (couponAmount (breakdown (evaluate form_subcent))) (Fin 0)"
proof -
  have s1: "stage1 form_subcent = stage0 form_subcent"
    unfolding stage1_def subcent_stage0 by code_simp
  have neg: "jlt (toDouble (- (1 / 250))) (Fin 0)"
    by code_simp
  show ?thesis
    by (simp add: examples_valid s1 subcent_stage0 subcent_stage2 subcent_result neg)
qed

section \<open>Validation\<close>

lemma map_of_cond_update:
  "map_of (if b then AList.update k v e else e) =
     (\<lambda>x. if b \<and> x = k then Some v else map_of e x)"
  by (auto simp: update_conv' fun_eq_iff)

lemma map_of_cond_update2:
  "map_of (if b then AList.update k2 v (AList.update k1 v e) else e) =
     (\<lambda>x. if b \<and> (x = k1 \<or> x = k2) then Some v else map_of e x)"
  by (auto simp: update_conv' fun_eq_iff)

lemma newErrors_map:
  "map_of (newErrors f) =
     (\<lambda>k. if k = ''originalPrice'' \<and> bad_originalPrice f
            then Some ''Please enter a valid positive price''
          else if k = ''discountRate'' \<and> bad_discountRate f
            then Some ''Discount must be between 0-99%''
          else if k = ''shippingFee'' \<and> bad_shippingFee f
            then Some ''Shipping fee cannot be negative''
          else if k = ''taxRate'' \<and> bad_taxRate f
            then Some ''Tax rate cannot be negative''
          else if k = ''couponValue'' \<and> bad_couponValue f
            then Some ''Please enter a valid coupon value''
          else if (k = ''buyX'' \<or> k = ''getY'') \<and> bad_buyXgetY f
            then Some msg_buyXgetY
          else if k = ''itemPrice'' \<and> bad_itemPrice f
            then Some ''Please enter a valid item price''
          else if (k = ''spendAmount'' \<or> k = ''saveAmount'') \<and> bad_spendSave f
            then Some msg_spendSave
          else None)"
  unfolding newErrors_def Let_def
  by (simp only: map_of_cond_update map_of_cond_update2) (auto simp: fun_eq_iff)

lemma newErrors_empty_iff:
  "newErrors f = [] \<longleftrightarrow>
     \<not> bad_originalPrice f \<and> \<not> bad_discountRate f \<and> \<not> bad_shippingFee f
     \<and> \<not> bad_taxRate f \<and> \<not> bad_couponValue f \<and> \<not> bad_buyXgetY f
     \<and> \<not> bad_itemPrice f \<and> \<not> bad_spendSave f"
proof
  assume e: "newErrors f = []"
  have none: "map_of (newErrors f) k = None" for k
    by (simp add: e)
  show "\<not> bad_originalPrice f \<and> \<not> bad_discountRate f \<and> \<not> bad_shippingFee f
     \<and> \<not> bad_taxRate f \<and> \<not> bad_couponValue f \<and> \<not> bad_buyXgetY f
     \<and> \<not> bad_itemPrice f \<and> \<not> bad_spendSave f"
    using none [of "''originalPrice''"] none [of "''discountRate''"] none [of "''shippingFee''"]
      none [of "''taxRate''"] none [of "''couponValue''"] none [of "''buyX''"]
      none [of "''itemPrice''"] none [of "''spendAmount''"]
    by (simp add: newErrors_map split: if_splits)
next
  assume "\<not> bad_originalPrice f \<and> \<not> bad_discountRate f \<and> \<not> bad_shippingFee f
     \<and> \<not> bad_taxRate f \<and> \<not> bad_couponValue f \<and> \<not> bad_buyXgetY f
     \<and> \<not> bad_itemPrice f \<and> \<not> bad_spendSave f"
  then show "newErrors f = []"
    by (simp add: newErrors_def)
qed

lemma originalPrice_error_stops_calculation:
  assumes "bad_originalPrice (form st)"
  shows "map_of (newErrors (form st)) ''originalPrice'' = Some ''Please enter a valid positive price''"
    and "calculateFinalPrice cur now stamp st = st\<lparr>errors := newErrors (form st)\<rparr>"
proof -
  show "map_of (newErrors (form st)) ''originalPrice''
          = Some ''Please enter a valid positive price''"
    using assms by (simp add: newErrors_map)
  then have "newErrors (form st) \<noteq> []"
    by auto
  then show "calculateFinalPrice cur now stamp st = st\<lparr>errors := newErrors (form st)\<rparr>"
    by (rule invalid_step)
qed

text \<open>
  Claim C3. A price that is missing, is not a number or is at most zero is meant to give an
  error on \<open>originalPrice\<close> and stop the calculation. The code breaks this at the price that
  is a single space: \<open>parseFloat\<close> reads it as \<open>NaN\<close>, the error object has no entry for
  \<open>originalPrice\<close>, and the calculation runs, storing a result and a history item.
\<close>

theorem blank_price_passes_validation:
  "originalPrice form_blank_price = js '' ''
   \<and> parseFloat (js '' '') = NaN
   \<and> map_of (newErrors form_blank_price) ''originalPrice'' = None
   \<and> calculateFinalPrice cur now stamp (initialState\<lparr>form := form_blank_price\<rparr>) =
       initialState\<lparr>form := form_blank_price,
         calculationResults := evaluate form_blank_price,
         history := [newHistoryItem cur now stamp (evaluate form_blank_price) form_blank_price]\<rparr>
   \<and> basePrice (breakdown (evaluate form_blank_price)) = NaN"
proof -
  have "originalPrice form_blank_price = js '' ''"
    by (simp add: form_blank_price_def emptyForm_def)
  moreover have "calculateFinalPrice cur now stamp (initialState\<lparr>form := form_blank_price\<rparr>) =
       initialState\<lparr>form := form_blank_price,
         calculationResults := evaluate form_blank_price,
         history := [newHistoryItem cur now stamp (evaluate form_blank_price) form_blank_price]\<rparr>"
    by (simp add: valid_step examples_valid) (simp add: initialState_def)
  moreover have "basePrice (breakdown (evaluate form_blank_price)) = NaN"
    by (simp add: blank_price_result)
  ultimately show ?thesis
    by (simp add: examples_valid blank_is_not_a_number)
qed

lemma two_rules_two_errors:
  "bad_originalPrice f \<and> bad_discountRate f \<Longrightarrow>
     map_of (newErrors f) ''originalPrice'' = Some ''Please enter a valid positive price''
     \<and> map_of (newErrors f) ''discountRate'' = Some ''Discount must be between 0-99%''"
  by (simp add: newErrors_map)

text \<open>
  Claim C4. Validation is meant to return every violated rule at once. The eight tests are
  independent and none of them can raise, but the object is not complete: a price that is
  a single space does not parse as a number, so with a discount of 150 the rules of
  \<open>originalPrice\<close> and of \<open>discountRate\<close> are both violated, and the object returned has the
  message of \<open>discountRate\<close> only. When every text of the form is a single space and the
  coupon is switched on, no field parses as a number and the object is empty:
  \<open>validateInputs\<close> answers that the input is valid.
\<close>

theorem blank_price_error_missing_from_map:
  "originalPrice form_blank_discount = js '' ''
   \<and> discountRate form_blank_discount = js ''150''
   \<and> parseFloat (js '' '') = NaN
   \<and> parseFloat (js ''150'') = Fin 150
   \<and> newErrors form_blank_discount = [(''discountRate'', ''Discount must be between 0-99%'')]
   \<and> map_of (newErrors form_blank_discount) ''originalPrice'' = None
   \<and> newErrors form_all_blank = []
   \<and> fst (validateInputs (initialState\<lparr>form := form_all_blank\<rparr>))"
proof -
  have fields: "originalPrice form_blank_discount = js '' ''"
    "discountRate form_blank_discount = js ''150''"
    by (simp_all add: form_blank_discount_def emptyForm_def)
  have "parseFloat (js ''150'') = Fin 150"
    by code_simp
  then show ?thesis
    by (simp add: fields blank_discount_found examples_valid blank_is_not_a_number
        validateInputs_def)
qed

section \<open>The promotion\<close>


text \<open>
  The quotient of the base price by the item price is a binary64 quotient: three items of
  9.95 cost 29.85, but 29.85 / 9.95 is 3.0000000000000004, so the quantity is 4, two
  items are free and the deduction is 19.9.
\<close>

lemma quantity_of_an_exact_multiple:
  "jdiv (parseFloat (originalPrice form_quantity_up)) (parseFloat (itemPrice form_quantity_up))
     = toDouble (30000000000000004 / 10000000000000000)
   \<and> quantity_of form_quantity_up = Fin 4
   \<and> freeItemsCount_of form_quantity_up = Fin 2
   \<and> promotionAmount (breakdown (evaluate form_quantity_up)) = toDouble (199 / 10)
   \<and> finalPrice (evaluate form_quantity_up) = Some (toDouble (199 / 20))"
  unfolding quantity_up_fields quantity_up_result by simp




section \<open>Tax, savings, spend and save\<close>






text \<open>
  Claim C8. The spend-and-save stage is applied exactly when both fields are present, both
  parse to positive numbers and the original base price is at least the spend amount; the
  running total after the earlier stages plays no part in that test. When it is applied,
  the amount is the minimum of the running total and the save amount, and it is taken from
  the running total; otherwise the amount stays zero and the running total is unchanged.
\<close>

theorem spendSave_fires_iff_threshold_on_basePrice:
  "(spendSaveCond f \<longleftrightarrow>
      truthy (spendAmount f) \<and> truthy (saveAmount f)
      \<and> jgt (parseFloat (spendAmount f)) (Fin 0) \<and> jgt (parseFloat (saveAmount f)) (Fin 0)
      \<and> jge (parseFloat (originalPrice f)) (parseFloat (spendAmount f)))
   \<and> (spendSaveCond f \<longrightarrow>
        spendSaveAmount (breakdown (evaluate f)) =
          Math_min (fst (stage3 f)) (parseFloat (saveAmount f))
      \<and> fst (stage4 f) = jsub (fst (stage3 f)) (spendSaveAmount (breakdown (evaluate f))))
   \<and> (\<not> spendSaveCond f \<longrightarrow>
        spendSaveAmount (breakdown (evaluate f)) = Fin 0 \<and> fst (stage4 f) = fst (stage3 f))"
proof -
  have "spendSaveAmount (breakdown (evaluate f)) = spendSaveAmount (snd (stage4 f))"
    by (simp add: evaluate_breakdown later_stages_keep_savings)
  then show ?thesis
    by (simp add: stage4_spendSave stage3_spendSave_zero)
       (simp add: spendSaveCond_def basePrice_of_def)
qed

theorem spendSave_fires_iff_threshold_on_basePrice_witness:
  "spendSaveCond form_discount_spend
   \<and> fst (stage3 form_discount_spend) = Fin 50
   \<and> parseFloat (spendAmount form_discount_spend) = Fin 80
   \<and> spendSaveAmount (breakdown (evaluate form_discount_spend)) = Math_min (Fin 50) (Fin 10)
   \<and> fst (stage4 form_discount_spend)
      = jsub (Fin 50) (spendSaveAmount (breakdown (evaluate form_discount_spend)))
   \<and> fst (stage4 form_discount_spend) = Fin 40
   \<and> \<not> spendSaveCond form_below_threshold
   \<and> parseFloat (originalPrice form_below_threshold) = Fin 50
   \<and> parseFloat (spendAmount form_below_threshold) = Fin 80
   \<and> spendSaveAmount (breakdown (evaluate form_below_threshold)) = Fin 0
   \<and> fst (stage4 form_below_threshold) = fst (stage3 form_below_threshold)"
proof -
  have s3: "stage3 form_discount_spend = stage1 form_discount_spend"
    unfolding stage3_def stage2_def discount_spend_stage1 by code_simp
  show ?thesis
    using spendSave_fires_iff_threshold_on_basePrice [of form_discount_spend]
      spendSave_fires_iff_threshold_on_basePrice [of form_below_threshold]
    by (simp add: discount_spend_fields s3 discount_spend_stage1 discount_spend_stage4
        below_threshold_fields)
qed

section \<open>Grouped fields\<close>

lemma pair_errors_share_message:
  "bad_buyXgetY f \<Longrightarrow>
     map_of (newErrors f) ''buyX'' = Some msg_buyXgetY
     \<and> map_of (newErrors f) ''getY'' = Some msg_buyXgetY"
  "bad_spendSave f \<Longrightarrow>
     map_of (newErrors f) ''spendAmount'' = Some msg_spendSave
     \<and> map_of (newErrors f) ''saveAmount'' = Some msg_spendSave"
  by (simp_all add: newErrors_map)

lemma one_of_a_pair_is_an_error:
  "truthy (buyX f) \<noteq> truthy (getY f) \<Longrightarrow> bad_buyXgetY f"
  "truthy (spendAmount f) \<noteq> truthy (saveAmount f) \<Longrightarrow> bad_spendSave f"
  by (auto simp: bad_buyXgetY_def bad_spendSave_def)

text \<open>
  Claim C9. A pair of which one member is missing, is not a number or is not positive is
  meant to get the same error on both fields. The code breaks this when a member is a
  single space: with \<open>buyX\<close> a space and \<open>getY\<close> 1, and with \<open>spendAmount\<close> a space and
  \<open>saveAmount\<close> 10, validation finds no error at all, and the calculation runs without the
  promotion and without the rebate.
\<close>

theorem blank_pair_member_passes_validation:
  "buyX form_blank_buyX = js '' '' \<and> spendAmount form_blank_spend = js '' ''
   \<and> parseFloat (js '' '') = NaN
   \<and> newErrors form_blank_buyX = []
   \<and> promotionAmount (breakdown (evaluate form_blank_buyX)) = Fin 0
   \<and> finalPrice (evaluate form_blank_buyX) = Some (Fin 100)
   \<and> newErrors form_blank_spend = []
   \<and> spendSaveAmount (breakdown (evaluate form_blank_spend)) = Fin 0
   \<and> finalPrice (evaluate form_blank_spend) = Some (Fin 100)"
  by (simp add: blank_buyX_fields blank_spend_fields blank_is_not_a_number examples_valid
      blank_buyX_result blank_spend_result)

section \<open>The history\<close>

lemma history_step:
  "history (calculateFinalPrice cur now stamp st) =
     (if newErrors (form st) = [] then
        newHistoryItem cur now stamp (evaluate (form st)) (form st) # take 9 (history st)
      else history st)"
  by (simp add: calculateFinalPrice_def validateInputs_def addToHistory_def Let_def)

lemma step_history_len: "length (history st) \<le> 10 \<Longrightarrow> length (history (step e st)) \<le> 10"
  by (cases e) (simp_all add: history_step handleInputChange_def resetForm_def Let_def)

lemma run_history_len: "length (history st) \<le> 10 \<Longrightarrow> length (history (run es st)) \<le> 10"
  unfolding run_def
  by (induction es arbitrary: st) (simp_all add: step_history_len)

lemma valid_100: "newErrors (emptyForm\<lparr>originalPrice := js ''100''\<rparr>) = []"
  by code_simp

text \<open>
  Claim C10. A calculation that passes validation puts its item at the front of the
  history and keeps the first nine of the older items behind it, in their order, so the
  list has at most ten items afterwards; a calculation that fails validation leaves the
  history as it was. In every state reached from the initial one by input changes,
  calculations and resets, the history has at most ten items.
\<close>

theorem history_newest_first_at_most_ten:
  "history (calculateFinalPrice cur now stamp st) =
     (if newErrors (form st) = []
      then newHistoryItem cur now stamp (evaluate (form st)) (form st) # take 9 (history st)
      else history st)
   \<and> (newErrors (form st) = [] \<longrightarrow>
        length (history (calculateFinalPrice cur now stamp st)) \<le> 10)
   \<and> length (history (run es initialState)) \<le> 10"
proof -
  have "length (history initialState) \<le> 10"
    by (simp add: initialState_def)
  then have "length (history (run es initialState)) \<le> 10"
    by (rule run_history_len)
  then show ?thesis
    by (simp add: history_step)
qed

theorem history_newest_first_at_most_ten_witness:
  "history (calculateFinalPrice ''USD'' 7 ''now''
      (initialState\<lparr>form := emptyForm\<lparr>originalPrice := js ''100''\<rparr>\<rparr>))
     = [newHistoryItem ''USD'' 7 ''now'' (evaluate (emptyForm\<lparr>originalPrice := js ''100''\<rparr>))
          (emptyForm\<lparr>originalPrice := js ''100''\<rparr>)]
   \<and> length (history (run [InputChange ''originalPrice'' (Text (js ''100'')), Calculate ''USD'' 7 ''now'']
        initialState)) \<le> 10"
  using history_newest_first_at_most_ten
    [of "''USD''" 7 "''now''" "initialState\<lparr>form := emptyForm\<lparr>originalPrice := js ''100''\<rparr>\<rparr>"
        "[InputChange ''originalPrice'' (Text (js ''100'')), Calculate ''USD'' 7 ''now'']"]
    valid_100
  by (simp add: initialState_def)

end
